theory Spec2Isabelle
  imports Complex_Main "HOL-Library.AList" "HOL-Library.Multiset"
    "HOL-Library.Char_ord" "HOL-Library.List_Lexorder"
begin

section \<open>Values, exceptions and records\<close>

text \<open>
  The activity records handled by the analyzer are Python dictionaries decoded from JSON.
  A JSON value is \<open>None\<close>, a \<open>bool\<close>, an \<open>int\<close> (unbounded), a \<open>float\<close>, a \<open>str\<close>, a list or
  a dictionary. Floats are idealised as real numbers: rounding, overflow and the special
  values (\<open>nan\<close>, \<open>inf\<close>) of IEEE doubles are outside this model. A dictionary is an
  association list in insertion order; lookups read the first entry of a key.
\<close>

datatype json =
    JNull
  | JBool bool
  | JInt int
  | JFloat real
  | JStr string
  | JList "json list"
  | JObj "(string \<times> json) list"

type_synonym activity = "(string \<times> json) list"

text \<open>
  A raised exception is a value: its class and the text that \<open>str(e)\<close> returns. For the
  exceptions raised by the interpreter and its library (the \<open>TypeError\<close> of an operator, the
  \<open>ValueError\<close> of a parser) the text is abridged: it does not name the operand types.
\<close>

datatype exn_class = Exception | TypeError | KeyError | ValueError | OverflowError

datatype exn = Exn (exn_type: exn_class) (exn_str: string)

definition ebind :: "exn + 'a \<Rightarrow> ('a \<Rightarrow> exn + 'b) \<Rightarrow> exn + 'b" where
  "ebind r f = (case r of Inl e \<Rightarrow> Inl e | Inr x \<Rightarrow> f x)"

text \<open>The numeric value of a number; \<open>bool\<close> is a subclass of \<open>int\<close> in Python.\<close>

fun num_val :: "json \<Rightarrow> real option" where
  "num_val (JBool b) = Some (if b then 1 else 0)"
| "num_val (JInt i) = Some (real_of_int i)"
| "num_val (JFloat x) = Some x"
| "num_val _ = None"

section \<open>StravaAnalyzer: cleaning an activity\<close>

definition METERS_TO_MILES :: real where
  "METERS_TO_MILES = 0.000621371"

definition MPS_TO_MPH :: real where
  "MPS_TO_MPH = 2.23694"

definition METERS_TO_FEET :: real where
  "METERS_TO_FEET = 3.28084"

definition fields_to_remove :: "string list" where
  "fields_to_remove = [''athlete'', ''map'', ''start_latlng'', ''end_latlng'']"

text \<open>
  \<open>v * c\<close> for a float constant \<open>c\<close>: a number gives a float, every other JSON value
  raises \<open>TypeError\<close>.
\<close>

definition py_mul_float :: "json \<Rightarrow> real \<Rightarrow> exn + json" where
  "py_mul_float v c =
     (case num_val v of
        Some x \<Rightarrow> Inr (JFloat (x * c))
      | None \<Rightarrow>
          Inl (Exn TypeError ''unsupported operand type(s) for *''))"

text \<open>
  \<^verbatim>\<open>if k in cleaned: cleaned[k] = cleaned[k] * c\<close>. Assigning to a key that is present
  keeps its position in the dictionary.
\<close>

definition convert_field :: "string \<Rightarrow> real \<Rightarrow> activity \<Rightarrow> exn + activity" where
  "convert_field k c cleaned =
     (case map_of cleaned k of
        None \<Rightarrow> Inr cleaned
      | Some v \<Rightarrow> ebind (py_mul_float v c) (\<lambda>v'. Inr (AList.update k v' cleaned)))"

definition clean_activity :: "activity \<Rightarrow> exn + activity" where
  "clean_activity activity =
     ebind (Inr (filter (\<lambda>(k, v). k \<notin> set fields_to_remove) activity)) (\<lambda>cleaned.
     ebind (convert_field ''distance'' METERS_TO_MILES cleaned) (\<lambda>cleaned.
     ebind (convert_field ''elev_high'' METERS_TO_FEET cleaned) (\<lambda>cleaned.
     ebind (convert_field ''elev_low'' METERS_TO_FEET cleaned) (\<lambda>cleaned.
     ebind (convert_field ''average_speed'' MPS_TO_MPH cleaned) (\<lambda>cleaned.
     ebind (convert_field ''max_speed'' MPS_TO_MPH cleaned) (\<lambda>cleaned.
     ebind (convert_field ''total_elevation_gain'' METERS_TO_FEET cleaned) (\<lambda>cleaned.
     Inr cleaned)))))))"

text \<open>\<open>clean_activities\<close>: the list comprehension stops at the first exception.\<close>

fun clean_activities :: "activity list \<Rightarrow> exn + activity list" where
  "clean_activities [] = Inr []"
| "clean_activities (a # as) =
     ebind (clean_activity a) (\<lambda>c.
     ebind (clean_activities as) (\<lambda>cs. Inr (c # cs)))"

section \<open>StravaAnalyzer: statistics\<close>

text \<open>\<^verbatim>\<open>d.get(k, default)\<close>.\<close>

definition dict_get :: "activity \<Rightarrow> string \<Rightarrow> json \<Rightarrow> json" where
  "dict_get d k dflt = (case map_of d k of None \<Rightarrow> dflt | Some v \<Rightarrow> v)"

text \<open>
  \<open>acc + v\<close> where \<open>acc\<close> is the running total of \<open>sum\<close> (an \<open>int\<close> or a \<open>float\<close>):
  two integers give an integer, a float on either side gives a float, anything that is
  not a number raises \<open>TypeError\<close>.
\<close>

fun py_add :: "json \<Rightarrow> json \<Rightarrow> exn + json" where
  "py_add (JInt a) (JInt b) = Inr (JInt (a + b))"
| "py_add (JInt a) (JBool b) = Inr (JInt (a + (if b then 1 else 0)))"
| "py_add acc v =
     (case (num_val acc, num_val v) of
        (Some x, Some y) \<Rightarrow> Inr (JFloat (x + y))
      | _ \<Rightarrow> Inl (Exn TypeError ''unsupported operand type(s) for +''))"

text \<open>\<open>sum(...)\<close> starts from the integer 0 and adds the items from left to right.\<close>

fun py_sum_from :: "json \<Rightarrow> json list \<Rightarrow> exn + json" where
  "py_sum_from acc [] = Inr acc"
| "py_sum_from acc (v # vs) = ebind (py_add acc v) (\<lambda>acc'. py_sum_from acc' vs)"

definition py_sum :: "json list \<Rightarrow> exn + json" where
  "py_sum vs = py_sum_from (JInt 0) vs"

text \<open>\<open>total / 3600\<close>: true division, always a float.\<close>

definition py_truediv :: "json \<Rightarrow> real \<Rightarrow> exn + json" where
  "py_truediv v c =
     (case num_val v of
        Some x \<Rightarrow> Inr (JFloat (x / c))
      | None \<Rightarrow> Inl (Exn TypeError ''unsupported operand type(s) for /''))"

text \<open>
  The keys of the \<open>activity_types\<close> dictionary. Lists and dictionaries are unhashable;
  numbers that compare equal (\<open>1\<close>, \<open>1.0\<close>, \<open>True\<close>) are one key, so a number is kept by
  its value.
\<close>

datatype hkey = KNone | KNum real | KStr string

fun dict_key :: "json \<Rightarrow> exn + hkey" where
  "dict_key JNull = Inr KNone"
| "dict_key (JStr s) = Inr (KStr s)"
| "dict_key (JList _) = Inl (Exn TypeError ''unhashable type'')"
| "dict_key (JObj _) = Inl (Exn TypeError ''unhashable type'')"
| "dict_key v = (case num_val v of Some x \<Rightarrow> Inr (KNum x) | None \<Rightarrow> Inr KNone)"

text \<open>
  The loop that counts activities by type; a new key is appended, a known key is
  incremented in place.
\<close>

fun count_types :: "(hkey \<times> nat) list \<Rightarrow> activity list \<Rightarrow> exn + (hkey \<times> nat) list" where
  "count_types activity_types [] = Inr activity_types"
| "count_types activity_types (activity # rest) =
     ebind (dict_key (dict_get activity ''type'' (JStr ''Unknown''))) (\<lambda>activity_type.
     count_types
       (AList.update activity_type
          ((case map_of activity_types activity_type of None \<Rightarrow> 0 | Some n \<Rightarrow> n) + 1)
          activity_types)
       rest)"

record activity_stats =
  total_activities :: nat
  total_distance_miles :: json
  total_moving_time_hours :: json
  total_elapsed_time_hours :: json
  activity_types :: "(hkey \<times> nat) list"

text \<open>The result of \<open>_calculate_activity_stats\<close>: the empty dictionary or the five totals.\<close>

datatype stats = EmptyStats | Stats activity_stats

definition calculate_activity_stats :: "activity list \<Rightarrow> exn + stats" where
  "calculate_activity_stats activities =
     (if activities = [] then Inr EmptyStats
      else
        ebind (py_sum (map (\<lambda>a. dict_get a ''distance'' (JInt 0)) activities)) (\<lambda>total_distance.
        ebind (py_sum (map (\<lambda>a. dict_get a ''moving_time'' (JInt 0)) activities)) (\<lambda>total_moving_time.
        ebind (py_sum (map (\<lambda>a. dict_get a ''elapsed_time'' (JInt 0)) activities)) (\<lambda>total_elapsed_time.
        ebind (count_types [] activities) (\<lambda>types.
        ebind (py_truediv total_moving_time 3600) (\<lambda>moving_hours.
        ebind (py_truediv total_elapsed_time 3600) (\<lambda>elapsed_hours.
        Inr (Stats \<lparr>total_activities = length activities,
                    total_distance_miles = total_distance,
                    total_moving_time_hours = moving_hours,
                    total_elapsed_time_hours = elapsed_hours,
                    activity_types = types\<rparr>))))))))"

section \<open>The datetime library\<close>

text \<open>
  The analyzer calls \<open>datetime.strptime\<close>, \<open>weekday\<close>, \<open>timedelta\<close> subtraction and
  \<open>strftime\<close> of Python's standard library. This section models them after the
  library's own algorithms for the proleptic Gregorian calendar: a date is a year, a
  month and a day, and its ordinal counts the days from 0001-01-01 (ordinal 1).
\<close>

definition is_leap :: "int \<Rightarrow> bool" where
  "is_leap year \<longleftrightarrow> year mod 4 = 0 \<and> (year mod 100 \<noteq> 0 \<or> year mod 400 = 0)"

definition days_before_year :: "int \<Rightarrow> int" where
  "days_before_year year = (let y = year - 1 in y * 365 + y div 4 - y div 100 + y div 400)"

definition DAYS_IN_MONTH :: "int list" where
  "DAYS_IN_MONTH = [-1, 31, 28, 31, 30, 31, 30, 31, 31, 30, 31, 30, 31]"

definition DAYS_BEFORE_MONTH :: "int list" where
  "DAYS_BEFORE_MONTH = [-1, 0, 31, 59, 90, 120, 151, 181, 212, 243, 273, 304, 334]"

definition days_in_month :: "int \<Rightarrow> int \<Rightarrow> int" where
  "days_in_month year month =
     (if month = 2 \<and> is_leap year then 29 else DAYS_IN_MONTH ! nat month)"

definition days_before_month :: "int \<Rightarrow> int \<Rightarrow> int" where
  "days_before_month year month =
     DAYS_BEFORE_MONTH ! nat month + (if month > 2 \<and> is_leap year then 1 else 0)"

definition ymd2ord :: "int \<Rightarrow> int \<Rightarrow> int \<Rightarrow> int" where
  "ymd2ord year month day = days_before_year year + days_before_month year month + day"

definition DI400Y :: int where "DI400Y = 146097"
definition DI100Y :: int where "DI100Y = 36524"
definition DI4Y :: int where "DI4Y = 1461"
definition MAXORDINAL :: int where "MAXORDINAL = 3652059"

definition ord2ymd :: "int \<Rightarrow> int \<times> int \<times> int" where
  "ord2ymd ordinal =
     (let n = ordinal - 1;
          n400 = n div DI400Y; n = n mod DI400Y;
          n100 = n div DI100Y; n = n mod DI100Y;
          n4 = n div DI4Y; n = n mod DI4Y;
          n1 = n div 365; n = n mod 365;
          year = n400 * 400 + 1 + n100 * 100 + n4 * 4 + n1
      in if n1 = 4 \<or> n100 = 4 then (year - 1, 12, 31)
         else
           let leapyear = (n1 = 3 \<and> (n4 \<noteq> 24 \<or> n100 = 3));
               month = (n + 50) div 32;
               preceding = DAYS_BEFORE_MONTH ! nat month + (if month > 2 \<and> leapyear then 1 else 0)
           in if preceding > n
              then (year, month - 1,
                    n - (preceding - (DAYS_IN_MONTH ! nat (month - 1)
                                       + (if month - 1 = 2 \<and> leapyear then 1 else 0))) + 1)
              else (year, month, n - preceding + 1))"

text \<open>A \<open>datetime\<close> object; the format parsed here has no fraction of a second.\<close>

record datetime =
  dt_year :: int
  dt_month :: int
  dt_day :: int
  dt_hour :: int
  dt_minute :: int
  dt_second :: int

definition toordinal :: "datetime \<Rightarrow> int" where
  "toordinal dt = ymd2ord (dt_year dt) (dt_month dt) (dt_day dt)"

text \<open>\<open>weekday()\<close>: Monday is 0, Sunday is 6.\<close>

definition weekday :: "datetime \<Rightarrow> int" where
  "weekday dt = (toordinal dt + 6) mod 7"

text \<open>
  \<open>dt - timedelta(days=k)\<close>: the date of the ordinal \<open>k\<close> days earlier at the same time of
  day; \<open>OverflowError\<close> outside the supported range of dates.
\<close>

definition sub_days :: "datetime \<Rightarrow> int \<Rightarrow> exn + datetime" where
  "sub_days dt k =
     (let days = toordinal dt - k
      in if 0 < days \<and> days \<le> MAXORDINAL
         then (case ord2ymd days of
                 (y, m, d) \<Rightarrow> Inr (dt\<lparr>dt_year := y, dt_month := m, dt_day := d\<rparr>))
         else Inl (Exn OverflowError ''date value out of range''))"

subsection \<open>Formatting\<close>

definition digit_char :: "nat \<Rightarrow> char" where
  "digit_char n = char_of (48 + n)"

definition pad2 :: "nat \<Rightarrow> string" where
  "pad2 n = [digit_char (n div 10 mod 10), digit_char (n mod 10)]"

definition pad4 :: "nat \<Rightarrow> string" where
  "pad4 n = [digit_char (n div 1000 mod 10), digit_char (n div 100 mod 10),
             digit_char (n div 10 mod 10), digit_char (n mod 10)]"

text \<open>
  \<open>strftime('%Y-%m-%d')\<close>: the year as four digits and the month and the day as two
  digits each, zero-padded, as the library documents them.
\<close>

definition iso_date :: "int \<Rightarrow> int \<Rightarrow> int \<Rightarrow> string" where
  "iso_date y m d = pad4 (nat y) @ ''-'' @ pad2 (nat m) @ ''-'' @ pad2 (nat d)"

definition strftime_date :: "datetime \<Rightarrow> string" where
  "strftime_date dt = iso_date (dt_year dt) (dt_month dt) (dt_day dt)"

text \<open>The decimal text of an integer, as \<open>str(n)\<close> and an f-string write it.\<close>

fun str_nat :: "nat \<Rightarrow> string" where
  "str_nat n = (if n < 10 then [digit_char n] else str_nat (n div 10) @ [digit_char (n mod 10)])"

declare str_nat.simps [simp del]

definition str_int :: "int \<Rightarrow> string" where
  "str_int i = (if i < 0 then ''-'' @ str_nat (nat (- i)) else str_nat (nat i))"

subsection \<open>Parsing\<close>

text \<open>
  \<open>datetime.strptime(s, '%Y-%m-%dT%H:%M:%SZ')\<close>. The library turns the format into a
  regular expression, matched without regard to case: the year is exactly four digits;
  every other field is two digits within the range of the field or else one digit; the
  day may also be a space and one digit; the whole string must be used up. The fields
  are then checked as a date and a time of day. Every failure is a \<open>ValueError\<close>.
\<close>

definition is_digit :: "char \<Rightarrow> bool" where
  "is_digit c \<longleftrightarrow> 48 \<le> (of_char c :: nat) \<and> (of_char c :: nat) \<le> 57"

definition digit_val :: "char \<Rightarrow> nat" where
  "digit_val c = of_char c - 48"

text \<open>
  A numeric field: two digits with a value from \<open>lo2\<close> to \<open>hi2\<close>, or else one digit of
  at least \<open>lo1\<close>. Returns the value and the rest of the input.
\<close>

definition read_field :: "nat \<Rightarrow> nat \<Rightarrow> nat \<Rightarrow> string \<Rightarrow> (nat \<times> string) option" where
  "read_field lo2 hi2 lo1 s =
     (case s of
        [] \<Rightarrow> None
      | a # s' \<Rightarrow>
          if \<not> is_digit a then None
          else
            (case s' of
               b # s'' \<Rightarrow>
                 if is_digit b \<and> lo2 \<le> 10 * digit_val a + digit_val b
                    \<and> 10 * digit_val a + digit_val b \<le> hi2
                 then Some (10 * digit_val a + digit_val b, s'')
                 else if lo1 \<le> digit_val a then Some (digit_val a, s') else None
             | [] \<Rightarrow> if lo1 \<le> digit_val a then Some (digit_val a, s') else None))"

definition read_year :: "string \<Rightarrow> (nat \<times> string) option" where
  "read_year s =
     (case s of
        a # b # c # d # s' \<Rightarrow>
          if is_digit a \<and> is_digit b \<and> is_digit c \<and> is_digit d
          then Some (1000 * digit_val a + 100 * digit_val b + 10 * digit_val c + digit_val d, s')
          else None
      | _ \<Rightarrow> None)"

definition read_day :: "string \<Rightarrow> (nat \<times> string) option" where
  "read_day s =
     (case read_field 1 31 1 s of
        Some r \<Rightarrow> Some r
      | None \<Rightarrow>
          (case s of
             a # b # s' \<Rightarrow>
               if a = CHR '' '' \<and> is_digit b \<and> 1 \<le> digit_val b then Some (digit_val b, s')
               else None
           | _ \<Rightarrow> None))"

text \<open>A literal character of the format; a letter matches in either case.\<close>

definition read_lit :: "char \<Rightarrow> char \<Rightarrow> string \<Rightarrow> string option" where
  "read_lit upper lower s =
     (case s of [] \<Rightarrow> None | c # s' \<Rightarrow> if c = upper \<or> c = lower then Some s' else None)"

definition obind :: "'a option \<Rightarrow> ('a \<Rightarrow> 'b option) \<Rightarrow> 'b option" where
  "obind r f = (case r of None \<Rightarrow> None | Some x \<Rightarrow> f x)"

definition match_format :: "string \<Rightarrow> (nat \<times> nat \<times> nat \<times> nat \<times> nat \<times> nat) option" where
  "match_format s =
     obind (read_year s) (\<lambda>(year, s).
     obind (read_lit CHR ''-'' CHR ''-'' s) (\<lambda>s.
     obind (read_field 1 12 1 s) (\<lambda>(month, s).
     obind (read_lit CHR ''-'' CHR ''-'' s) (\<lambda>s.
     obind (read_day s) (\<lambda>(day, s).
     obind (read_lit CHR ''T'' CHR ''t'' s) (\<lambda>s.
     obind (read_field 0 23 0 s) (\<lambda>(hour, s).
     obind (read_lit CHR '':'' CHR '':'' s) (\<lambda>s.
     obind (read_field 0 59 0 s) (\<lambda>(minute, s).
     obind (read_lit CHR '':'' CHR '':'' s) (\<lambda>s.
     obind (read_field 0 61 0 s) (\<lambda>(second, s).
     obind (read_lit CHR ''Z'' CHR ''z'' s) (\<lambda>s.
     if s = [] then Some (year, month, day, hour, minute, second) else None))))))))))))"

definition strptime :: "json \<Rightarrow> exn + datetime" where
  "strptime v =
     (case v of
        JStr s \<Rightarrow>
          (case match_format s of
             None \<Rightarrow> Inl (Exn ValueError ''time data does not match format'')
           | Some (year, month, day, hour, minute, second) \<Rightarrow>
               if 1 \<le> year \<and> day \<le> nat (days_in_month (int year) (int month)) \<and> second \<le> 59
               then Inr \<lparr>dt_year = int year, dt_month = int month, dt_day = int day,
                         dt_hour = int hour, dt_minute = int minute, dt_second = int second\<rparr>
               else Inl (Exn ValueError ''date or time field out of range''))
      | _ \<Rightarrow> Inl (Exn TypeError ''strptime() argument 1 must be str''))"

section \<open>StravaAnalyzer: the weekly summary\<close>

text \<open>
  The key of an activity's week: \<open>activity['start_date']\<close> parsed, moved back to the
  Monday of its week and written as a date.
\<close>

definition week_key :: "activity \<Rightarrow> exn + string" where
  "week_key activity =
     (case map_of activity ''start_date'' of
        None \<Rightarrow> Inl (Exn KeyError (CHR 0x27 # ''start_date'' @ [CHR 0x27]))
      | Some v \<Rightarrow>
          ebind (strptime v) (\<lambda>start_date.
          ebind (sub_days start_date (weekday start_date)) (\<lambda>week_start.
          Inr (strftime_date week_start))))"

text \<open>
  The grouping loop over a \<open>defaultdict(list)\<close>: a new week is appended with the
  activity as its only member, a known week gets the activity at the end of its list.
\<close>

fun group_by_week ::
  "(string \<times> activity list) list \<Rightarrow> activity list \<Rightarrow> exn + (string \<times> activity list) list" where
  "group_by_week weekly_activities [] = Inr weekly_activities"
| "group_by_week weekly_activities (activity # rest) =
     ebind (week_key activity) (\<lambda>k.
     group_by_week
       (AList.update k
          ((case map_of weekly_activities k of None \<Rightarrow> [] | Some l \<Rightarrow> l) @ [activity])
          weekly_activities)
       rest)"

text \<open>The loop over \<open>sorted(weekly_activities.items())\<close>, given the sorted items.\<close>

fun weekly_stats :: "(string \<times> activity list) list \<Rightarrow> exn + (string \<times> stats) list" where
  "weekly_stats [] = Inr []"
| "weekly_stats ((week_start, week_activities) # rest) =
     ebind (calculate_activity_stats week_activities) (\<lambda>st.
     ebind (weekly_stats rest) (\<lambda>sts. Inr ((week_start, st) # sts)))"

text \<open>
  The summary: \<open>{}\<close>, or \<open>overall\<close> with, when asked for, the \<open>weekly\<close> dictionary in
  insertion order.
\<close>

datatype summary = EmptySummary | Summary stats "(string \<times> stats) list option"

definition get_activities_summary :: "activity list \<Rightarrow> bool \<Rightarrow> exn + summary" where
  "get_activities_summary activities include_weekly =
     (if activities = [] then Inr EmptySummary
      else
        ebind (clean_activities activities) (\<lambda>cleaned_activities.
        ebind (calculate_activity_stats cleaned_activities) (\<lambda>overall_summary.
        if include_weekly
        then
          ebind (group_by_week [] cleaned_activities) (\<lambda>weekly_activities.
          ebind (weekly_stats (sort_key fst weekly_activities)) (\<lambda>weekly_summaries.
          Inr (Summary overall_summary (Some weekly_summaries))))
        else Inr (Summary overall_summary None))))"

section \<open>StravaOAuth: requests\<close>

text \<open>
  The HTTP client, the JSON decoder and the process environment are collaborators of the
  code; they are the fields of an \<open>environment\<close>. A call of \<open>http.request\<close> either raises
  or returns a response with its status and the outcome of \<open>data.decode('utf-8')\<close>.
  Every function that may issue requests returns the requests it issued, in order, beside
  its result.
\<close>

record http_request =
  req_method :: string
  req_url :: string
  req_headers :: "(string \<times> string) list"

datatype http_outcome =
    HttpRaises exn
  | HttpResponse int "exn + string"

record environment =
  http :: "http_request \<Rightarrow> http_outcome"
  json_loads :: "string \<Rightarrow> exn + json"
  getenv :: "string \<Rightarrow> string option"

text \<open>
  The body of the \<open>try\<close> block of \<open>make_authenticated_request\<close>, given the outcome of the
  request.
\<close>

definition handle_response :: "environment \<Rightarrow> http_outcome \<Rightarrow> exn + json" where
  "handle_response env outcome =
     (case outcome of
        HttpRaises e \<Rightarrow> Inl e
      | HttpResponse status data \<Rightarrow>
          if status = 401 then Inl (Exn Exception ''Access token expired'')
          else if status \<noteq> 200
          then ebind data (\<lambda>text. Inl (Exn Exception (''Request failed: '' @ text)))
          else ebind data (json_loads env))"

text \<open>
  \<open>make_authenticated_request\<close>: the \<open>except Exception\<close> clause catches whatever the block
  raised and raises a plain \<open>Exception\<close> with the prefixed text in its place.
\<close>

definition make_authenticated_request ::
  "environment \<Rightarrow> string \<Rightarrow> string \<Rightarrow> string \<Rightarrow> (string \<times> string) list
    \<Rightarrow> (exn + json) \<times> http_request list" where
  "make_authenticated_request env access_token method url headers =
     (let headers = AList.update ''Authorization'' (''Bearer '' @ access_token) headers;
          request = \<lparr>req_method = method, req_url = url, req_headers = headers\<rparr>
      in (case handle_response env (http env request) of
            Inl e \<Rightarrow> Inl (Exn Exception (''Request failed: '' @ exn_str e))
          | Inr payload \<Rightarrow> Inr payload,
          [request]))"

text \<open>Truth value, iteration and length of a decoded JSON value.\<close>

fun truthy :: "json \<Rightarrow> bool" where
  "truthy JNull = False"
| "truthy (JBool b) = b"
| "truthy (JInt i) = (i \<noteq> 0)"
| "truthy (JFloat x) = (x \<noteq> 0)"
| "truthy (JStr s) = (s \<noteq> [])"
| "truthy (JList xs) = (xs \<noteq> [])"
| "truthy (JObj kvs) = (kvs \<noteq> [])"

fun py_iter :: "json \<Rightarrow> exn + json list" where
  "py_iter (JList xs) = Inr xs"
| "py_iter (JObj kvs) = Inr (map (\<lambda>(k, v). JStr k) kvs)"
| "py_iter (JStr s) = Inr (map (\<lambda>c. JStr [c]) s)"
| "py_iter _ = Inl (Exn TypeError ''object is not iterable'')"

fun py_len :: "json \<Rightarrow> exn + int" where
  "py_len (JList xs) = Inr (int (length xs))"
| "py_len (JObj kvs) = Inr (int (length kvs))"
| "py_len (JStr s) = Inr (int (length s))"
| "py_len _ = Inl (Exn TypeError ''object has no len()'')"

text \<open>\<^verbatim>\<open>f"{url}?page={page}&per_page={per_page}"\<close>.\<close>

definition paginated_url :: "string \<Rightarrow> int \<Rightarrow> int \<Rightarrow> string" where
  "paginated_url url page per_page =
     url @ ''?page='' @ str_int page @ ''&per_page='' @ str_int per_page"

text \<open>
  The \<open>while True\<close> loop of \<open>fetch_all_pages\<close> with its variables \<open>all_items\<close> and
  \<open>page\<close> and the requests issued so far. The loop has no bound of its own: \<open>None\<close> is
  a run that never leaves it.
\<close>

partial_function (option) fetch_loop ::
  "environment \<Rightarrow> string \<Rightarrow> string \<Rightarrow> int \<Rightarrow> json list \<Rightarrow> int \<Rightarrow> http_request list
    \<Rightarrow> ((exn + json list) \<times> http_request list) option" where
  "fetch_loop env access_token url per_page all_items page issued =
     (case make_authenticated_request env access_token ''GET''
             (paginated_url url page per_page) [] of
           (result, requests) \<Rightarrow>
             (case result of
                Inl e \<Rightarrow> Some (Inl e, issued @ requests)
              | Inr response \<Rightarrow>
                  if \<not> truthy response then Some (Inr all_items, issued @ requests)
                  else
                    (case py_iter response of
                       Inl e \<Rightarrow> Some (Inl e, issued @ requests)
                     | Inr items \<Rightarrow>
                         (case py_len response of
                            Inl e \<Rightarrow> Some (Inl e, issued @ requests)
                          | Inr n \<Rightarrow>
                              if n < per_page
                              then Some (Inr (all_items @ items), issued @ requests)
                              else fetch_loop env access_token url per_page
                                     (all_items @ items) (page + 1) (issued @ requests)))))"

definition fetch_all_pages ::
  "environment \<Rightarrow> string \<Rightarrow> string \<Rightarrow> int
    \<Rightarrow> ((exn + json list) \<times> http_request list) option" where
  "fetch_all_pages env access_token url per_page =
     fetch_loop env access_token url per_page [] 1 []"

section \<open>The server's get_activities tool\<close>

text \<open>\<open>a or b\<close> and \<open>not a\<close> for optional strings: \<open>None\<close> and the empty string are false.\<close>

definition falsy :: "string option \<Rightarrow> bool" where
  "falsy a \<longleftrightarrow> (case a of None \<Rightarrow> True | Some s \<Rightarrow> s = [])"

definition py_or :: "string option \<Rightarrow> string option \<Rightarrow> string option" where
  "py_or a b = (if falsy a then b else a)"

text \<open>\<open>sep.join(xs)\<close>.\<close>

fun py_join :: "string \<Rightarrow> string list \<Rightarrow> string" where
  "py_join sep [] = []"
| "py_join sep [x] = x"
| "py_join sep (x # xs) = x @ sep @ py_join sep xs"

text \<open>
  The constructor of \<open>StravaOAuth\<close>: the credentials fall back to the process
  environment, and a missing one raises \<open>ValueError\<close>. It issues no request.
\<close>

record strava_oauth =
  oauth_client_id :: "string option"
  oauth_client_secret :: "string option"

definition StravaOAuth :: "environment \<Rightarrow> string option \<Rightarrow> string option \<Rightarrow> exn + strava_oauth" where
  "StravaOAuth env client_id client_secret =
     (let cid = py_or client_id (getenv env ''STRAVA_CLIENT_ID'');
          csec = py_or client_secret (getenv env ''STRAVA_CLIENT_SECRET'')
      in if falsy cid \<or> falsy csec
         then Inl (Exn ValueError ''Missing required OAuth credentials'')
         else Inr \<lparr>oauth_client_id = cid, oauth_client_secret = csec\<rparr>)"

text \<open>The two fields of the server settings that the tool assigns.\<close>

record server_settings =
  client_id :: string
  client_secret :: string

definition error_object :: "string \<Rightarrow> json" where
  "error_object message = JObj [(''error'', JStr message)]"

definition missing_credentials ::
  "string option \<Rightarrow> string option \<Rightarrow> string option \<Rightarrow> string list" where
  "missing_credentials cid csec token =
     (if falsy cid then [''client_id''] else [])
     @ (if falsy csec then [''client_secret''] else [])
     @ (if falsy token then [''access_token''] else [])"

definition missing_message :: "string list \<Rightarrow> string" where
  "missing_message missing =
     ''Missing required credentials: '' @ py_join '', '' missing @ ''. ''
     @ ''Please provide them either as arguments or set the corresponding environment variables: ''
     @ ''STRAVA_CLIENT_ID, STRAVA_CLIENT_SECRET, STRAVA_ACCESS_TOKEN''"

text \<open>
  \<open>get_activities\<close>: the result, the settings after the call and the requests issued.
  The \<open>except Exception\<close> clause around the whole body turns a raised exception into an
  error object.
\<close>

definition get_activities ::
  "environment \<Rightarrow> server_settings \<Rightarrow> string option \<Rightarrow> string option \<Rightarrow> string option \<Rightarrow> string
    \<Rightarrow> json \<times> server_settings \<times> http_request list" where
  "get_activities env settings cid_arg csec_arg token_arg endpoint =
     (let cid = py_or cid_arg (getenv env ''STRAVA_CLIENT_ID'');
          csec = py_or csec_arg (getenv env ''STRAVA_CLIENT_SECRET'');
          token = py_or token_arg (getenv env ''STRAVA_ACCESS_TOKEN'');
          settings = settings\<lparr>
            client_id := (case cid of Some s \<Rightarrow> if s = [] then client_id settings else s
                          | None \<Rightarrow> client_id settings),
            client_secret := (case csec of Some s \<Rightarrow> if s = [] then client_secret settings else s
                              | None \<Rightarrow> client_secret settings)\<rparr>
      in case token of
           Some access_token \<Rightarrow>
             if falsy cid \<or> falsy csec \<or> access_token = []
             then (error_object (missing_message (missing_credentials cid csec token)), settings, [])
             else
               (case StravaOAuth env cid csec of
                  Inl e \<Rightarrow> (error_object (exn_str e), settings, [])
                | Inr strava \<Rightarrow>
                    (case make_authenticated_request env access_token ''GET'' endpoint [] of
                       (Inl e, requests) \<Rightarrow> (error_object (exn_str e), settings, requests)
                     | (Inr payload, requests) \<Rightarrow> (payload, settings, requests)))
         | None \<Rightarrow>
             (error_object (missing_message (missing_credentials cid csec token)), settings, []))"


section \<open>Notions used in the statements\<close>

subsection \<open>Cleaning\<close>

text \<open>
  The six conversions of \<open>clean_activity\<close> in the order of the code, and the same chain
  of conversions as a loop over such a table.
\<close>

definition conversion_table :: "(string \<times> real) list" where
  "conversion_table =
     [(''distance'', METERS_TO_MILES), (''elev_high'', METERS_TO_FEET),
      (''elev_low'', METERS_TO_FEET), (''average_speed'', MPS_TO_MPH),
      (''max_speed'', MPS_TO_MPH), (''total_elevation_gain'', METERS_TO_FEET)]"

fun convert_fields :: "(string \<times> real) list \<Rightarrow> activity \<Rightarrow> exn + activity" where
  "convert_fields [] cleaned = Inr cleaned"
| "convert_fields ((k, c) # table) cleaned =
     ebind (convert_field k c cleaned) (convert_fields table)"

definition converted :: "real \<Rightarrow> json option \<Rightarrow> json option" where
  "converted c field =
     (case field of
        None \<Rightarrow> None
      | Some v \<Rightarrow> (case num_val v of None \<Rightarrow> None | Some x \<Rightarrow> Some (JFloat (x * c))))"

subsection \<open>Statistics\<close>

text \<open>
  An activity carries a field when the key is present. The number it contributes to a
  total is 0 when the key is absent. A field is summable when it is absent or a number,
  and a type is hashable when it is absent or may be a dictionary key.
\<close>

definition carries :: "string \<Rightarrow> activity \<Rightarrow> bool" where
  "carries k a \<longleftrightarrow> map_of a k \<noteq> None"

definition field_number :: "string \<Rightarrow> activity \<Rightarrow> real" where
  "field_number k a =
     (case map_of a k of
        None \<Rightarrow> 0
      | Some v \<Rightarrow> (case num_val v of None \<Rightarrow> 0 | Some x \<Rightarrow> x))"

definition count_of :: "(hkey \<times> nat) list \<Rightarrow> hkey \<Rightarrow> nat" where
  "count_of tys k = (case map_of tys k of None \<Rightarrow> 0 | Some n \<Rightarrow> n)"

definition summable :: "string \<Rightarrow> activity \<Rightarrow> bool" where
  "summable k a \<longleftrightarrow> (case map_of a k of None \<Rightarrow> True | Some v \<Rightarrow> num_val v \<noteq> None)"

definition type_hashable :: "activity \<Rightarrow> bool" where
  "type_hashable a \<longleftrightarrow>
     (case map_of a ''type'' of
        None \<Rightarrow> True
      | Some v \<Rightarrow> (case dict_key v of Inl e \<Rightarrow> False | Inr h \<Rightarrow> True))"

subsection \<open>Requests\<close>

text \<open>The request that \<open>make_authenticated_request\<close> sends.\<close>

definition sent_request :: "string \<Rightarrow> string \<Rightarrow> string \<Rightarrow> (string \<times> string) list \<Rightarrow> http_request" where
  "sent_request access_token method url headers =
     \<lparr>req_method = method, req_url = url,
      req_headers = AList.update ''Authorization'' (''Bearer '' @ access_token) headers\<rparr>"

text \<open>
  The credentials that are absent once the arguments have fallen back to the process
  environment, by the names of the arguments.
\<close>

definition absent_credentials ::
  "environment \<Rightarrow> string option \<Rightarrow> string option \<Rightarrow> string option \<Rightarrow> string list" where
  "absent_credentials env cid_arg csec_arg token_arg =
     map fst (filter (\<lambda>(name, v). falsy v)
       [(''client_id'', py_or cid_arg (getenv env ''STRAVA_CLIENT_ID'')),
        (''client_secret'', py_or csec_arg (getenv env ''STRAVA_CLIENT_SECRET'')),
        (''access_token'', py_or token_arg (getenv env ''STRAVA_ACCESS_TOKEN''))])"

subsection \<open>Example inputs\<close>

text \<open>
  An environment without variables whose server answers every request with one status
  and one body, decoded as the empty list.
\<close>

definition fixed_response_env :: "int \<Rightarrow> string \<Rightarrow> environment" where
  "fixed_response_env status text =
     \<lparr>http = (\<lambda>request. HttpResponse status (Inr text)),
      json_loads = (\<lambda>text. Inr (JList [])),
      getenv = (\<lambda>name. None)\<rparr>"


section \<open>Cleaning an activity\<close>

lemma clean_activity_convert_fields:
  "clean_activity a = convert_fields conversion_table (filter (\<lambda>(k, v). k \<notin> set fields_to_remove) a)"
  by (simp add: clean_activity_def conversion_table_def ebind_def split: sum.splits)

lemma map_of_removed:
  "map_of (filter (\<lambda>(k, v). k \<notin> R) a) k = (if k \<in> R then None else map_of a k)"
  by (induction a) auto

lemma convert_field_absent: "map_of a k = None \<Longrightarrow> convert_field k c a = Inr a"
  by (simp add: convert_field_def)

lemma convert_field_number:
  "map_of a k = Some v \<Longrightarrow> num_val v = Some x \<Longrightarrow>
   convert_field k c a = Inr (AList.update k (JFloat (x * c)) a)"
  by (simp add: convert_field_def py_mul_float_def ebind_def)

lemma convert_field_not_number:
  "map_of a k = Some v \<Longrightarrow> num_val v = None \<Longrightarrow>
   convert_field k c a = Inl (Exn TypeError ''unsupported operand type(s) for *'')"
  by (simp add: convert_field_def py_mul_float_def ebind_def)

lemma convert_field_result:
  assumes "\<forall>v. map_of a k = Some v \<longrightarrow> num_val v \<noteq> None"
  shows "\<exists>b. convert_field k c a = Inr b
           \<and> map_of b = (map_of a)(k := converted c (map_of a k))
           \<and> (map_of a k = None \<longrightarrow> b = a)"
proof (cases "map_of a k")
  case None
  then show ?thesis by (auto simp: convert_field_absent converted_def)
next
  case (Some v)
  with assms obtain x where "num_val v = Some x" by auto
  with Some show ?thesis
    by (auto simp: convert_field_number converted_def update_conv')
qed

lemma convert_fields_result:
  "distinct (map fst table) \<Longrightarrow>
   \<forall>k \<in> fst ` set table. \<forall>v. map_of a k = Some v \<longrightarrow> num_val v \<noteq> None \<Longrightarrow>
   \<exists>b. convert_fields table a = Inr b
      \<and> (\<forall>k. map_of b k = (case map_of table k of None \<Rightarrow> map_of a k
                                | Some c \<Rightarrow> converted c (map_of a k)))
      \<and> ((\<forall>k \<in> fst ` set table. map_of a k = None) \<longrightarrow> b = a)"
proof (induction table arbitrary: a)
  case Nil
  then show ?case by simp
next
  case (Cons entry table)
  obtain k c where entry: "entry = (k, c)" by (cases entry)
  from Cons.prems(2) entry have "\<forall>v. map_of a k = Some v \<longrightarrow> num_val v \<noteq> None" by simp
  from convert_field_result [OF this, of c] obtain a1 where
    a1: "convert_field k c a = Inr a1"
    and m1: "map_of a1 = (map_of a)(k := converted c (map_of a k))"
    and same1: "map_of a k = None \<longrightarrow> a1 = a" by auto
  from Cons.prems(1) entry have dist: "distinct (map fst table)" and fresh: "k \<notin> fst ` set table"
    by auto
  from fresh have other: "\<forall>k' \<in> fst ` set table. map_of a1 k' = map_of a k'"
    using m1 by auto
  with Cons.prems(2) have "\<forall>k' \<in> fst ` set table. \<forall>v. map_of a1 k' = Some v \<longrightarrow> num_val v \<noteq> None"
    by simp
  from Cons.IH [OF dist this] obtain b where
    b: "convert_fields table a1 = Inr b"
    and mb: "\<forall>k'. map_of b k' = (case map_of table k' of None \<Rightarrow> map_of a1 k'
                                    | Some c' \<Rightarrow> converted c' (map_of a1 k'))"
    and sameb: "(\<forall>k' \<in> fst ` set table. map_of a1 k' = None) \<longrightarrow> b = a1" by auto
  have run: "convert_fields (entry # table) a = Inr b"
    using a1 b entry by (simp add: ebind_def)
  have fresh_None: "map_of table k = None"
    using fresh by (simp add: map_of_eq_None_iff)
  have look: "map_of b k' = (case map_of (entry # table) k' of None \<Rightarrow> map_of a k'
                              | Some c' \<Rightarrow> converted c' (map_of a k'))" for k'
  proof (cases "k' = k")
    case True
    with mb fresh_None m1 entry show ?thesis by simp
  next
    case False
    then have "map_of a1 k' = map_of a k'" using m1 by simp
    with mb False entry show ?thesis by (simp split: option.split)
  qed
  have unchanged: "(\<forall>k' \<in> fst ` set (entry # table). map_of a k' = None) \<longrightarrow> b = a"
    using same1 sameb other entry by auto
  show ?case
    using run look unchanged by (intro exI [of _ b] conjI allI)
qed

lemma convert_fields_type_error:
  "distinct (map fst table) \<Longrightarrow>
   k \<in> fst ` set table \<Longrightarrow> map_of a k = Some v \<Longrightarrow> num_val v = None \<Longrightarrow>
   \<exists>e. convert_fields table a = Inl e \<and> exn_type e = TypeError"
proof (induction table arbitrary: a)
  case Nil
  then show ?case by simp
next
  case (Cons entry table)
  obtain k0 c where entry: "entry = (k0, c)" by (cases entry)
  show ?case
  proof (cases "\<forall>w. map_of a k0 = Some w \<longrightarrow> num_val w \<noteq> None")
    case False
    then obtain w where "map_of a k0 = Some w" "num_val w = None" by auto
    then show ?thesis
      using entry by (simp add: convert_field_not_number ebind_def)
  next
    case True
    from convert_field_result [OF True, of c] obtain a1 where
      a1: "convert_field k0 c a = Inr a1"
      and m1: "map_of a1 = (map_of a)(k0 := converted c (map_of a k0))" by auto
    from True Cons.prems(3,4) have "k \<noteq> k0" by auto
    with Cons.prems(2) entry have mem: "k \<in> fst ` set table" by auto
    from \<open>k \<noteq> k0\<close> m1 Cons.prems(3) have "map_of a1 k = Some v" by simp
    from Cons.IH [OF _ mem this Cons.prems(4)] Cons.prems(1)
    obtain e where "convert_fields table a1 = Inl e" "exn_type e = TypeError" by auto
    with a1 entry show ?thesis by (simp add: ebind_def)
  qed
qed

lemma conversion_keys_distinct: "distinct (map fst conversion_table)"
  by (simp add: conversion_table_def)

lemma conversion_keys_kept: "k \<in> fst ` set conversion_table \<Longrightarrow> k \<notin> set fields_to_remove"
  by (auto simp: conversion_table_def fields_to_remove_def)

text \<open>
  C5, as the code has it: a present metric field that is not a number (\<open>None\<close>, a string,
  a list, a dictionary) makes \<open>clean_activity\<close> raise \<open>TypeError\<close>, so it is not total on
  every record.
\<close>

theorem clean_activity_not_total_counterexample:
  "clean_activity [(''distance'', JNull)] = Inl (Exn TypeError ''unsupported operand type(s) for *'')"
  by code_simp

text \<open>
  C5, amended: on every record whose present metric fields are numbers \<open>clean_activity\<close>
  returns; the four keys \<open>athlete\<close>, \<open>map\<close>, \<open>start_latlng\<close>, \<open>end_latlng\<close> are absent from
  the result whether or not they were present; each of the six metric fields is
  multiplied by its factor when present and stays absent when absent; every other field
  is passed through unchanged; and a record with no metric field comes back unchanged but
  for the four removed keys. On a record with a present metric field that is not a number
  it raises \<open>TypeError\<close>.
\<close>

theorem clean_activity_converts_numbers:
  "((\<forall>k \<in> fst ` set conversion_table. \<forall>v. map_of a k = Some v \<longrightarrow> num_val v \<noteq> None) \<longrightarrow>
      (\<exists>b. clean_activity a = Inr b
         \<and> (\<forall>k \<in> set fields_to_remove. map_of b k = None)
         \<and> (\<forall>(k, c) \<in> set conversion_table. map_of b k = converted c (map_of a k))
         \<and> (\<forall>k. k \<notin> set fields_to_remove \<and> k \<notin> fst ` set conversion_table \<longrightarrow>
                map_of b k = map_of a k)
         \<and> ((\<forall>k \<in> fst ` set conversion_table. map_of a k = None) \<longrightarrow>
                b = filter (\<lambda>(k, v). k \<notin> set fields_to_remove) a)))
   \<and> ((\<exists>k \<in> fst ` set conversion_table. \<exists>v. map_of a k = Some v \<and> num_val v = None) \<longrightarrow>
      (\<exists>e. clean_activity a = Inl e \<and> exn_type e = TypeError))"
proof (intro conjI impI)
  let ?f = "filter (\<lambda>(k, v). k \<notin> set fields_to_remove) a"
  assume num: "\<forall>k \<in> fst ` set conversion_table. \<forall>v. map_of a k = Some v \<longrightarrow> num_val v \<noteq> None"
  have kept: "map_of ?f k = map_of a k" if "k \<in> fst ` set conversion_table" for k
    using conversion_keys_kept [OF that] by (simp add: map_of_removed)
  with num have "\<forall>k \<in> fst ` set conversion_table. \<forall>v. map_of ?f k = Some v \<longrightarrow> num_val v \<noteq> None"
    by simp
  from convert_fields_result [OF conversion_keys_distinct this] obtain b where
    b: "convert_fields conversion_table ?f = Inr b"
    and look: "\<And>k. map_of b k = (case map_of conversion_table k of None \<Rightarrow> map_of ?f k
                                    | Some c \<Rightarrow> converted c (map_of ?f k))"
    and same: "(\<forall>k \<in> fst ` set conversion_table. map_of ?f k = None) \<longrightarrow> b = ?f" by auto
  have r1: "\<forall>k \<in> set fields_to_remove. map_of b k = None"
  proof
    fix k assume k: "k \<in> set fields_to_remove"
    then have "k \<notin> fst ` set conversion_table" using conversion_keys_kept by blast
    then have "map_of conversion_table k = None" by (simp add: map_of_eq_None_iff)
    with k look [of k] show "map_of b k = None" by (simp add: map_of_removed)
  qed
  have r2: "\<forall>(k, c) \<in> set conversion_table. map_of b k = converted c (map_of a k)"
  proof (clarify)
    fix k c assume kc: "(k, c) \<in> set conversion_table"
    then have "map_of conversion_table k = Some c"
      using conversion_keys_distinct by simp
    moreover from kc have "k \<in> fst ` set conversion_table" by force
    ultimately show "map_of b k = converted c (map_of a k)"
      using look [of k] kept [of k] by simp
  qed
  have r3: "\<forall>k. k \<notin> set fields_to_remove \<and> k \<notin> fst ` set conversion_table \<longrightarrow> map_of b k = map_of a k"
  proof (intro allI impI)
    fix k assume k: "k \<notin> set fields_to_remove \<and> k \<notin> fst ` set conversion_table"
    then have "map_of conversion_table k = None" by (simp add: map_of_eq_None_iff)
    with k look [of k] show "map_of b k = map_of a k" by (simp add: map_of_removed)
  qed
  have r4: "(\<forall>k \<in> fst ` set conversion_table. map_of a k = None) \<longrightarrow> b = ?f"
    using same kept by simp
  show "\<exists>b. clean_activity a = Inr b
         \<and> (\<forall>k \<in> set fields_to_remove. map_of b k = None)
         \<and> (\<forall>(k, c) \<in> set conversion_table. map_of b k = converted c (map_of a k))
         \<and> (\<forall>k. k \<notin> set fields_to_remove \<and> k \<notin> fst ` set conversion_table \<longrightarrow>
                map_of b k = map_of a k)
         \<and> ((\<forall>k \<in> fst ` set conversion_table. map_of a k = None) \<longrightarrow>
                b = filter (\<lambda>(k, v). k \<notin> set fields_to_remove) a)"
    unfolding clean_activity_convert_fields
    using b r1 r2 r3 r4 by (intro exI [of _ b] conjI)
next
  let ?f = "filter (\<lambda>(k, v). k \<notin> set fields_to_remove) a"
  assume "\<exists>k \<in> fst ` set conversion_table. \<exists>v. map_of a k = Some v \<and> num_val v = None"
  then obtain k v where k: "k \<in> fst ` set conversion_table" and v: "map_of a k = Some v" "num_val v = None"
    by blast
  from k v have "map_of ?f k = Some v"
    using conversion_keys_kept [OF k] by (simp add: map_of_removed)
  from convert_fields_type_error [OF conversion_keys_distinct k this v(2)]
  show "\<exists>e. clean_activity a = Inl e \<and> exn_type e = TypeError"
    unfolding clean_activity_convert_fields .
qed

section \<open>Statistics of a list of activities\<close>

lemma py_add_numbers:
  "num_val acc = Some x \<Longrightarrow> num_val v = Some y \<Longrightarrow>
   \<exists>r. py_add acc v = Inr r \<and> num_val r = Some (x + y)"
  by (cases acc; cases v) auto

lemma py_add_returns:
  "py_add acc v = Inr r \<Longrightarrow> num_val acc = Some x \<Longrightarrow>
   \<exists>y. num_val v = Some y \<and> num_val r = Some (x + y)"
  by (cases acc; cases v) (auto split: if_splits)

lemma py_sum_from_numbers:
  "num_val acc = Some x \<Longrightarrow> \<forall>v \<in> set vs. num_val v \<noteq> None \<Longrightarrow>
   \<exists>r. py_sum_from acc vs = Inr r"
proof (induction vs arbitrary: acc x)
  case Nil
  then show ?case by simp
next
  case (Cons v vs)
  then obtain y where "num_val v = Some y" by auto
  from py_add_numbers [OF Cons.prems(1) this] obtain r where
    "py_add acc v = Inr r" "num_val r = Some (x + y)" by auto
  with Cons.IH [of r "x + y"] Cons.prems(2) show ?case by (simp add: ebind_def)
qed

lemma py_sum_from_returns:
  "py_sum_from acc vs = Inr r \<Longrightarrow> num_val acc = Some x \<Longrightarrow>
   (\<forall>v \<in> set vs. num_val v \<noteq> None)
   \<and> num_val r = Some (x + (\<Sum>v\<leftarrow>vs. case num_val v of None \<Rightarrow> 0 | Some y \<Rightarrow> y))"
proof (induction vs arbitrary: acc x)
  case Nil
  then show ?case by simp
next
  case (Cons v vs)
  from Cons.prems(1) obtain acc' where step: "py_add acc v = Inr acc'" and rest: "py_sum_from acc' vs = Inr r"
    by (auto simp: ebind_def split: sum.splits)
  from py_add_returns [OF step Cons.prems(2)] obtain y where
    y: "num_val v = Some y" and acc': "num_val acc' = Some (x + y)" by auto
  from Cons.IH [OF rest acc'] y show ?case by (simp add: add.assoc)
qed

lemma dict_get_number:
  "summable k a \<Longrightarrow> num_val (dict_get a k (JInt 0)) = Some (field_number k a)"
  by (auto simp: summable_def dict_get_def field_number_def split: option.splits)

lemma dict_get_not_number:
  "num_val (dict_get a k (JInt 0)) \<noteq> None \<Longrightarrow> summable k a"
  by (auto simp: summable_def dict_get_def split: option.splits)

lemma sum_carrying:
  "(\<Sum>a\<leftarrow>filter (carries k) activities. field_number k a) = (\<Sum>a\<leftarrow>activities. field_number k a)"
  by (induction activities) (auto simp: carries_def field_number_def)

lemma field_total_returns:
  assumes "py_sum (map (\<lambda>a. dict_get a k (JInt 0)) activities) = Inr tsum"
  shows "num_val tsum = Some (\<Sum>a\<leftarrow>filter (carries k) activities. field_number k a)"
proof -
  from assms have run: "py_sum_from (JInt 0) (map (\<lambda>a. dict_get a k (JInt 0)) activities) = Inr tsum"
    by (simp add: py_sum_def)
  have z: "num_val (JInt 0) = Some 0" by simp
  from py_sum_from_returns [OF run z]
  have all: "\<forall>a \<in> set activities. num_val (dict_get a k (JInt 0)) \<noteq> None"
    and tot: "num_val tsum = Some (\<Sum>v\<leftarrow>map (\<lambda>a. dict_get a k (JInt 0)) activities.
                  case num_val v of None \<Rightarrow> 0 | Some y \<Rightarrow> y)" by auto
  from all have "\<forall>a \<in> set activities. num_val (dict_get a k (JInt 0)) = Some (field_number k a)"
    using dict_get_number dict_get_not_number by blast
  then have "(\<Sum>v\<leftarrow>map (\<lambda>a. dict_get a k (JInt 0)) activities. case num_val v of None \<Rightarrow> 0 | Some y \<Rightarrow> y)
      = (\<Sum>a\<leftarrow>activities. field_number k a)"
    by (induction activities) auto
  with tot show ?thesis by (simp add: sum_carrying)
qed

lemma field_total_exists:
  assumes "\<forall>a \<in> set activities. summable k a"
  shows "\<exists>tsum. py_sum (map (\<lambda>a. dict_get a k (JInt 0)) activities) = Inr tsum
           \<and> num_val tsum \<noteq> None"
proof -
  have z: "num_val (JInt 0) = Some 0" by simp
  from assms have "\<forall>v \<in> set (map (\<lambda>a. dict_get a k (JInt 0)) activities). num_val v \<noteq> None"
    by (auto simp: dict_get_number)
  from py_sum_from_numbers [OF z this] obtain tsum where
    t: "py_sum (map (\<lambda>a. dict_get a k (JInt 0)) activities) = Inr tsum"
    by (auto simp: py_sum_def)
  from field_total_returns [OF t] t show ?thesis by auto
qed

lemma count_of_update:
  "count_of (AList.update k n tys) k' = (if k' = k then n else count_of tys k')"
  by (simp add: count_of_def update_conv')

lemma count_types_returns:
  "count_types tys activities = Inr tys' \<Longrightarrow>
   count_of tys' k = count_of tys k
     + length (filter (\<lambda>a. dict_key (dict_get a ''type'' (JStr ''Unknown'')) = Inr k) activities)"
proof (induction activities arbitrary: tys)
  case Nil
  then show ?case by simp
next
  case (Cons a activities)
  from Cons.prems obtain h where h: "dict_key (dict_get a ''type'' (JStr ''Unknown'')) = Inr h"
    and rest: "count_types (AList.update h (count_of tys h + 1) tys) activities = Inr tys'"
    by (auto simp: ebind_def count_of_def split: sum.splits)
  from Cons.IH [OF rest] h show ?case
    by (auto simp: count_of_update)
qed

lemma count_types_exists:
  "\<forall>a \<in> set activities. type_hashable a \<Longrightarrow> \<exists>tys'. count_types tys activities = Inr tys'"
proof (induction activities arbitrary: tys)
  case Nil
  then show ?case by simp
next
  case (Cons a activities)
  from Cons.prems have "type_hashable a" by simp
  then obtain h where h: "dict_key (dict_get a ''type'' (JStr ''Unknown'')) = Inr h"
    by (auto simp: type_hashable_def dict_get_def split: option.splits sum.splits)
  with Cons show ?case by (simp add: ebind_def)
qed

lemma unknown_key:
  "dict_key (dict_get a ''type'' (JStr ''Unknown'')) = Inr (KStr ''Unknown'')
   \<longleftrightarrow> map_of a ''type'' = None \<or> map_of a ''type'' = Some (JStr ''Unknown'')"
proof (cases "map_of a ''type''")
  case None
  then show ?thesis by (simp add: dict_get_def)
next
  case (Some v)
  then show ?thesis by (cases v) (auto simp: dict_get_def)
qed

lemma py_truediv_number:
  "num_val v = Some x \<Longrightarrow> py_truediv v c = Inr (JFloat (x / c))"
  by (simp add: py_truediv_def)

text \<open>
  C10: for a non-empty list of activities, an activity that lacks \<open>distance\<close>,
  \<open>moving_time\<close> or \<open>elapsed_time\<close> does not make the statistics fail and is not left
  out: the statistics are returned whenever the fields that are present are numbers and
  the types that are present are hashable; \<open>total_activities\<close> is the length of the
  list; each total is the sum over the activities that carry the field (the times divided
  by 3600); and the count under \<open>"Unknown"\<close> is the number of activities that lack a type
  or have the type \<open>"Unknown"\<close>.
\<close>

theorem stats_count_absent_fields_as_zero:
  "activities \<noteq> [] \<longrightarrow>
   ((\<forall>a \<in> set activities. summable ''distance'' a \<and> summable ''moving_time'' a
        \<and> summable ''elapsed_time'' a \<and> type_hashable a) \<longrightarrow>
      (\<exists>st. calculate_activity_stats activities = Inr (Stats st)))
   \<and> (\<forall>st. calculate_activity_stats activities = Inr (Stats st) \<longrightarrow>
        total_activities st = length activities
      \<and> num_val (total_distance_miles st)
          = Some (\<Sum>a\<leftarrow>filter (carries ''distance'') activities. field_number ''distance'' a)
      \<and> num_val (total_moving_time_hours st)
          = Some ((\<Sum>a\<leftarrow>filter (carries ''moving_time'') activities. field_number ''moving_time'' a) / 3600)
      \<and> num_val (total_elapsed_time_hours st)
          = Some ((\<Sum>a\<leftarrow>filter (carries ''elapsed_time'') activities. field_number ''elapsed_time'' a) / 3600)
      \<and> count_of (activity_types st) (KStr ''Unknown'')
          = length (filter (\<lambda>a. map_of a ''type'' = None \<or> map_of a ''type'' = Some (JStr ''Unknown''))
                      activities))"
proof (intro impI conjI allI)
  assume ne: "activities \<noteq> []"
  assume ok: "\<forall>a \<in> set activities. summable ''distance'' a \<and> summable ''moving_time'' a
        \<and> summable ''elapsed_time'' a \<and> type_hashable a"
  from ok field_total_exists [of activities "''distance''"] obtain d where
    d: "py_sum (map (\<lambda>a. dict_get a ''distance'' (JInt 0)) activities) = Inr d" by auto
  from ok field_total_exists [of activities "''moving_time''"] obtain m xm where
    m: "py_sum (map (\<lambda>a. dict_get a ''moving_time'' (JInt 0)) activities) = Inr m"
    and xm: "num_val m = Some xm" by auto
  from ok field_total_exists [of activities "''elapsed_time''"] obtain e xe where
    e: "py_sum (map (\<lambda>a. dict_get a ''elapsed_time'' (JInt 0)) activities) = Inr e"
    and xe: "num_val e = Some xe" by auto
  from ok count_types_exists [of activities "[]"] obtain tys where
    tys: "count_types [] activities = Inr tys" by auto
  from ne d m e tys show "\<exists>st. calculate_activity_stats activities = Inr (Stats st)"
    by (simp add: calculate_activity_stats_def ebind_def py_truediv_number [OF xm]
        py_truediv_number [OF xe])
next
  fix st
  assume ne: "activities \<noteq> []"
  assume run: "calculate_activity_stats activities = Inr (Stats st)"
  from run ne obtain d m e tys mh eh where
    d: "py_sum (map (\<lambda>a. dict_get a ''distance'' (JInt 0)) activities) = Inr d"
    and m: "py_sum (map (\<lambda>a. dict_get a ''moving_time'' (JInt 0)) activities) = Inr m"
    and e: "py_sum (map (\<lambda>a. dict_get a ''elapsed_time'' (JInt 0)) activities) = Inr e"
    and tys: "count_types [] activities = Inr tys"
    and mh: "py_truediv m 3600 = Inr mh"
    and eh: "py_truediv e 3600 = Inr eh"
    and st: "st = \<lparr>total_activities = length activities, total_distance_miles = d,
                   total_moving_time_hours = mh, total_elapsed_time_hours = eh,
                   activity_types = tys\<rparr>"
    by (auto simp: calculate_activity_stats_def ebind_def split: sum.splits)
  from st show "total_activities st = length activities" by simp
  from st field_total_returns [OF d]
  show "num_val (total_distance_miles st)
          = Some (\<Sum>a\<leftarrow>filter (carries ''distance'') activities. field_number ''distance'' a)"
    by simp
  from field_total_returns [OF m] mh st
  show "num_val (total_moving_time_hours st)
          = Some ((\<Sum>a\<leftarrow>filter (carries ''moving_time'') activities. field_number ''moving_time'' a) / 3600)"
    by (auto simp: py_truediv_def)
  from field_total_returns [OF e] eh st
  show "num_val (total_elapsed_time_hours st)
          = Some ((\<Sum>a\<leftarrow>filter (carries ''elapsed_time'') activities. field_number ''elapsed_time'' a) / 3600)"
    by (auto simp: py_truediv_def)
  from count_types_returns [OF tys, of "KStr ''Unknown''"] st
  show "count_of (activity_types st) (KStr ''Unknown'')
          = length (filter (\<lambda>a. map_of a ''type'' = None \<or> map_of a ''type'' = Some (JStr ''Unknown''))
                      activities)"
    by (simp add: count_of_def unknown_key)
qed

section \<open>Failures of an authenticated request\<close>

text \<open>
  C4, as the code has it: a 401 response and a 500 response both end in a plain
  \<open>Exception\<close>; no class of its own marks the expired token.
\<close>

theorem expired_token_is_plain_exception_counterexample:
  "fst (make_authenticated_request (fixed_response_env 401 ''gone'') ''t'' ''GET'' ''u'' [])
     = Inl (Exn Exception ''Request failed: Access token expired'')
   \<and> fst (make_authenticated_request (fixed_response_env 500 ''gone'') ''t'' ''GET'' ''u'' [])
     = Inl (Exn Exception ''Request failed: Request failed: gone'')"
  by (simp add: make_authenticated_request_def handle_response_def fixed_response_env_def ebind_def)

text \<open>
  C4, amended: \<open>make_authenticated_request\<close> raises a plain \<open>Exception\<close> on an HTTP 401
  response, with the text \<open>Request failed: Access token expired\<close>, and a plain
  \<open>Exception\<close> of the same class on every other response that is not a 200, with the
  text \<open>Request failed: Request failed: \<close> followed by the body; the two texts differ, so
  a caller can tell an expired token from another failure by the text of the error, not
  by its type.
\<close>

theorem request_failures_differ_by_text_only:
  "(http env (sent_request token method url headers) = HttpResponse 401 data \<longrightarrow>
      fst (make_authenticated_request env token method url headers)
        = Inl (Exn Exception ''Request failed: Access token expired''))
   \<and> (status \<noteq> 401 \<and> status \<noteq> 200
        \<and> http env (sent_request token method url headers) = HttpResponse status (Inr text) \<longrightarrow>
      fst (make_authenticated_request env token method url headers)
        = Inl (Exn Exception (''Request failed: Request failed: '' @ text))
      \<and> ''Request failed: Request failed: '' @ text \<noteq> ''Request failed: Access token expired'')"
  by (simp add: make_authenticated_request_def handle_response_def sent_request_def ebind_def)

theorem request_failures_differ_by_text_only_witness:
  "http (fixed_response_env 401 ''gone'') (sent_request ''t'' ''GET'' ''u'' []) = HttpResponse 401 (Inr ''gone'')
   \<and> fst (make_authenticated_request (fixed_response_env 401 ''gone'') ''t'' ''GET'' ''u'' [])
        = Inl (Exn Exception ''Request failed: Access token expired'')
   \<and> (500::int) \<noteq> 401 \<and> (500::int) \<noteq> 200
   \<and> http (fixed_response_env 500 ''gone'') (sent_request ''t'' ''GET'' ''u'' []) = HttpResponse 500 (Inr ''gone'')
   \<and> fst (make_authenticated_request (fixed_response_env 500 ''gone'') ''t'' ''GET'' ''u'' [])
        = Inl (Exn Exception (''Request failed: Request failed: '' @ ''gone''))"
  using request_failures_differ_by_text_only [of "fixed_response_env 401 ''gone''" "''t''" "''GET''" "''u''" "[]" "Inr ''gone''" 500 "''gone''"]
    request_failures_differ_by_text_only [of "fixed_response_env 500 ''gone''" "''t''" "''GET''" "''u''" "[]" "Inr ''gone''" 500 "''gone''"]
  by (simp add: fixed_response_env_def)

section \<open>The get_activities tool\<close>

text \<open>
  C9: \<open>get_activities\<close> checks for missing credentials before it issues any request:
  when a credential is absent the result is the error object whose message lists exactly
  the absent ones, and no request has been issued. With all three present it issues the
  request of \<open>make_authenticated_request\<close> and returns its payload, or, when that raised,
  the error object with the text of the exception. It never raises.
\<close>

theorem get_activities_reports_failures_as_values:
  "(absent_credentials env cid_arg csec_arg token_arg \<noteq> [] \<longrightarrow>
      fst (get_activities env settings cid_arg csec_arg token_arg endpoint)
        = error_object (missing_message (absent_credentials env cid_arg csec_arg token_arg))
      \<and> snd (snd (get_activities env settings cid_arg csec_arg token_arg endpoint)) = [])
   \<and> (absent_credentials env cid_arg csec_arg token_arg = [] \<longrightarrow>
        (\<exists>access_token. py_or token_arg (getenv env ''STRAVA_ACCESS_TOKEN'') = Some access_token
           \<and> access_token \<noteq> []
           \<and> snd (snd (get_activities env settings cid_arg csec_arg token_arg endpoint))
               = snd (make_authenticated_request env access_token ''GET'' endpoint [])
           \<and> fst (get_activities env settings cid_arg csec_arg token_arg endpoint)
               = (case fst (make_authenticated_request env access_token ''GET'' endpoint []) of
                    Inl e \<Rightarrow> error_object (exn_str e)
                  | Inr payload \<Rightarrow> payload)))"
proof (cases "py_or token_arg (getenv env ''STRAVA_ACCESS_TOKEN'')")
  case None
  then show ?thesis
    by (simp add: absent_credentials_def get_activities_def missing_credentials_def falsy_def Let_def)
next
  case (Some access_token)
  show ?thesis
  proof (cases "falsy (py_or cid_arg (getenv env ''STRAVA_CLIENT_ID''))
      \<or> falsy (py_or csec_arg (getenv env ''STRAVA_CLIENT_SECRET'')) \<or> access_token = []")
    case True
    with Some show ?thesis
      by (auto simp add: absent_credentials_def get_activities_def missing_credentials_def falsy_def Let_def)
  next
    case False
    then have ok: "StravaOAuth env (py_or cid_arg (getenv env ''STRAVA_CLIENT_ID''))
        (py_or csec_arg (getenv env ''STRAVA_CLIENT_SECRET''))
      = Inr \<lparr>oauth_client_id = py_or cid_arg (getenv env ''STRAVA_CLIENT_ID''),
             oauth_client_secret = py_or csec_arg (getenv env ''STRAVA_CLIENT_SECRET'')\<rparr>"
      by (simp add: StravaOAuth_def py_or_def Let_def)
    from False Some have none: "absent_credentials env cid_arg csec_arg token_arg = []"
      by (simp add: absent_credentials_def falsy_def)
    obtain r reqs where mar: "make_authenticated_request env access_token ''GET'' endpoint [] = (r, reqs)"
      by (cases "make_authenticated_request env access_token ''GET'' endpoint []")
    from False Some ok mar none show ?thesis
      by (cases r) (simp_all add: get_activities_def Let_def)
  qed
qed

theorem get_activities_reports_failures_as_values_witness:
  "absent_credentials (fixed_response_env 200 ''[]'') None (Some ''secret'') None
     = [''client_id'', ''access_token'']
   \<and> fst (get_activities (fixed_response_env 200 ''[]'') \<lparr>client_id = '''', client_secret = ''''\<rparr>
            None (Some ''secret'') None ''u'')
       = error_object (missing_message [''client_id'', ''access_token''])
   \<and> snd (snd (get_activities (fixed_response_env 200 ''[]'') \<lparr>client_id = '''', client_secret = ''''\<rparr>
            None (Some ''secret'') None ''u'')) = []
   \<and> absent_credentials (fixed_response_env 200 ''[]'') (Some ''id'') (Some ''secret'') (Some ''t'') = []
   \<and> fst (get_activities (fixed_response_env 200 ''[]'') \<lparr>client_id = '''', client_secret = ''''\<rparr>
            (Some ''id'') (Some ''secret'') (Some ''t'') ''u'') = JList []
   \<and> fst (get_activities (fixed_response_env 500 ''down'') \<lparr>client_id = '''', client_secret = ''''\<rparr>
            (Some ''id'') (Some ''secret'') (Some ''t'') ''u'')
       = error_object ''Request failed: Request failed: down''"
proof -
  have a1: "absent_credentials (fixed_response_env 200 ''[]'') None (Some ''secret'') None
     = [''client_id'', ''access_token'']"
    by (simp add: absent_credentials_def fixed_response_env_def py_or_def falsy_def)
  have a2: "absent_credentials (fixed_response_env 200 ''[]'') (Some ''id'') (Some ''secret'') (Some ''t'') = []"
    by (simp add: absent_credentials_def fixed_response_env_def py_or_def falsy_def)
  have a3: "absent_credentials (fixed_response_env 500 ''down'') (Some ''id'') (Some ''secret'') (Some ''t'') = []"
    by (simp add: absent_credentials_def fixed_response_env_def py_or_def falsy_def)
  have t: "py_or (Some ''t'') (getenv env ''STRAVA_ACCESS_TOKEN'') = Some ''t''" for env
    by (simp add: py_or_def falsy_def)
  have m1: "fst (make_authenticated_request (fixed_response_env 200 ''[]'') ''t'' ''GET'' ''u'' []) = Inr (JList [])"
    by (simp add: make_authenticated_request_def handle_response_def fixed_response_env_def ebind_def)
  have m2: "fst (make_authenticated_request (fixed_response_env 500 ''down'') ''t'' ''GET'' ''u'' [])
      = Inl (Exn Exception ''Request failed: Request failed: down'')"
    by (simp add: make_authenticated_request_def handle_response_def fixed_response_env_def ebind_def)
  show ?thesis
    using get_activities_reports_failures_as_values [of "fixed_response_env 200 ''[]''" None "Some ''secret''" None
        "\<lparr>client_id = '''', client_secret = ''''\<rparr>" "''u''"]
      get_activities_reports_failures_as_values [of "fixed_response_env 200 ''[]''" "Some ''id''" "Some ''secret''" "Some ''t''"
        "\<lparr>client_id = '''', client_secret = ''''\<rparr>" "''u''"]
      get_activities_reports_failures_as_values [of "fixed_response_env 500 ''down''" "Some ''id''" "Some ''secret''" "Some ''t''"
        "\<lparr>client_id = '''', client_secret = ''''\<rparr>" "''u''"]
    by (simp add: a1 a2 a3 t m1 m2)
qed

section \<open>The empty input\<close>

text \<open>
  C8: \<open>get_activities_summary\<close> applied to an empty activity list returns the empty
  mapping \<open>{}\<close> for every value of \<open>include_weekly\<close>; it returns, it does not raise.
\<close>

theorem summary_of_nothing_is_empty:
  "get_activities_summary [] include_weekly = Inr EmptySummary"
  by (simp add: get_activities_summary_def)

end
